theory Spec2Isabelle
  imports Main "HOL-Library.Monad_Syntax"
begin

section \<open>The submission relay of api/telegram.js\<close>

text \<open>
  The repository is one serverless function, \<^verbatim>\<open>handler(req, res)\<close>. It reads the request
  method, two environment variables and the request body, calls the Telegram bot API
  through \<^verbatim>\<open>fetch\<close> up to three times and answers with a status and a JSON body.
  The embedding makes the function pure: the runtime (clock, date formatting, network)
  is a parameter, and the outcome holds the response, the outbound calls in the order
  they were issued, and the console lines. The request body is the value the platform
  parsed, \<^verbatim>\<open>undefined\<close> when there is none.

  Strings are byte lists holding UTF-8. All characters the source tests for
  (\<^verbatim>\<open>data:\<close>, \<^verbatim>\<open>;\<close>, \<^verbatim>\<open>/\<close>, \<^verbatim>\<open>+\<close>) are ASCII, and an ASCII byte never occurs inside a
  multi-byte UTF-8 sequence, so prefix tests and splits agree with JavaScript's on
  UTF-16 code units.
\<close>

subsection \<open>JavaScript values\<close>

text \<open>
  The values a parsed request body or a parsed platform reply can hold. A number is
  carried by its canonical rendering, the result of \<^verbatim>\<open>String(n)\<close>; both zeros render
  as \<^verbatim>\<open>0\<close>. An object is the list of its own properties, each key once.
\<close>

datatype jsval =
    JUndefined
  | JNull
  | JBool bool
  | JNum string
  | JStr string
  | JArr "jsval list"
  | JObj "(string \<times> jsval) list"

text \<open>\<^verbatim>\<open>ToBoolean\<close>: what \<^verbatim>\<open>if (v)\<close>, \<^verbatim>\<open>!v\<close> and \<^verbatim>\<open>v || d\<close> test.\<close>

fun truthy :: "jsval \<Rightarrow> bool" where
  "truthy JUndefined = False"
| "truthy JNull = False"
| "truthy (JBool b) = b"
| "truthy (JNum t) = (t \<noteq> ''0'' \<and> t \<noteq> ''NaN'')"
| "truthy (JStr s) = (s \<noteq> [])"
| "truthy (JArr xs) = True"
| "truthy (JObj kvs) = True"

text \<open>
  Reading a property \<^verbatim>\<open>v.k\<close> of a value that is neither \<^verbatim>\<open>null\<close> nor \<^verbatim>\<open>undefined\<close>, for
  a key that no prototype defines (every key the handler reads is such a key): an object
  yields its own property, anything else yields \<^verbatim>\<open>undefined\<close>.
\<close>

fun get_prop :: "jsval \<Rightarrow> string \<Rightarrow> jsval" where
  "get_prop (JObj kvs) k = (case map_of kvs k of None \<Rightarrow> JUndefined | Some v \<Rightarrow> v)"
| "get_prop v k = JUndefined"

fun join_with :: "string \<Rightarrow> string list \<Rightarrow> string" where
  "join_with sep [] = []"
| "join_with sep [x] = x"
| "join_with sep (x # y # ys) = x @ sep @ join_with sep (y # ys)"

fun sequence_opt :: "'a option list \<Rightarrow> 'a list option" where
  "sequence_opt [] = Some []"
| "sequence_opt (None # xs) = None"
| "sequence_opt (Some x # xs) = (case sequence_opt xs of None \<Rightarrow> None | Some ys \<Rightarrow> Some (x # ys))"

text \<open>
  \<^verbatim>\<open>ToString\<close>, as a template literal applies it; \<open>None\<close> is a thrown \<^verbatim>\<open>TypeError\<close>.
  An array joins its elements with a comma, \<^verbatim>\<open>null\<close> and \<^verbatim>\<open>undefined\<close> elements as the
  empty string. A parsed object has no callable property of its own, so one with an own
  \<^verbatim>\<open>toString\<close> key has no way to a primitive and throws; any other renders as
  \<^verbatim>\<open>[object Object]\<close>.
\<close>

fun ToString :: "jsval \<Rightarrow> string option" where
  "ToString JUndefined = Some ''undefined''"
| "ToString JNull = Some ''null''"
| "ToString (JBool b) = Some (if b then ''true'' else ''false'')"
| "ToString (JNum t) = Some t"
| "ToString (JStr s) = Some s"
| "ToString (JArr xs) =
     map_option (join_with '','')
       (sequence_opt (map (\<lambda>x. if x = JUndefined \<or> x = JNull then Some [] else ToString x) xs))"
| "ToString (JObj kvs) =
     (if ''toString'' \<in> fst ` set kvs then None else Some ''[object Object]'')"

text \<open>
  \<^verbatim>\<open>ToPrimitive\<close>, as \<^verbatim>\<open>new Date(v)\<close> applies it: a primitive is itself, an array or
  object goes to its string, or throws where that throws.
\<close>

fun ToPrimitive :: "jsval \<Rightarrow> jsval option" where
  "ToPrimitive (JArr xs) = map_option JStr (ToString (JArr xs))"
| "ToPrimitive (JObj kvs) = map_option JStr (ToString (JObj kvs))"
| "ToPrimitive v = Some v"

subsection \<open>String helpers\<close>

definition startsWith :: "string \<Rightarrow> string \<Rightarrow> bool" where
  "startsWith s p = (take (length p) s = p)"

text \<open>\<^verbatim>\<open>s.split(c)\<close> for a one-character separator: never empty, \<^verbatim>\<open>''.split(c)\<close> is \<^verbatim>\<open>['']\<close>.\<close>

fun split_on :: "char \<Rightarrow> string \<Rightarrow> string list" where
  "split_on c [] = [[]]"
| "split_on c (x # xs) =
     (if x = c then [] # split_on c xs
      else (case split_on c xs of
              [] \<Rightarrow> [[x]]
            | seg # segs \<Rightarrow> (x # seg) # segs))"

text \<open>\<^verbatim>\<open>xs[i]\<close> on an array: \<^verbatim>\<open>undefined\<close> out of range.\<close>

definition at_index :: "'a list \<Rightarrow> nat \<Rightarrow> 'a option" where
  "at_index xs i = (if i < length xs then Some (xs ! i) else None)"

text \<open>
  The line terminators that \<^verbatim>\<open>.\<close> in a regular expression without the \<^verbatim>\<open>s\<close> flag does
  not match: LF, CR, U+2028 and U+2029 (in UTF-8: E2 80 A8 and E2 80 A9).
\<close>

fun has_line_terminator :: "string \<Rightarrow> bool" where
  "has_line_terminator [] = False"
| "has_line_terminator (c # cs) =
     (c = CHR 0x0A \<or> c = CHR 0x0D
      \<or> (c = CHR 0xE2 \<and> (take 2 cs = [CHR 0x80, CHR 0xA8] \<or> take 2 cs = [CHR 0x80, CHR 0xA9]))
      \<or> has_line_terminator cs)"

subsection \<open>Requests, responses, outbound calls\<close>

record request =
  req_method :: string
  req_body :: jsval

record env =
  BOT_TOKEN :: "string option"
  CHAT_ID :: "string option"

text \<open>\<^verbatim>\<open>!process.env.X\<close>: an environment variable is falsy when unset or empty.\<close>

fun env_truthy :: "string option \<Rightarrow> bool" where
  "env_truthy None = False"
| "env_truthy (Some s) = (s \<noteq> [])"

record json_reply =
  ok :: bool
  error :: "string option"

record response =
  res_status :: nat
  res_headers :: "(string \<times> string) list"
  res_json :: json_reply

text \<open>
  \<^verbatim>\<open>Buffer.from(b64, 'base64')\<close>: the bytes are a function of the payload text alone;
  the buffer is carried as that payload, not decoded.
\<close>

datatype buffer = Buffer_from_base64 string

datatype form_entry =
    Field string string
  | File string buffer string

datatype http_body =
    JsonBody jsval
  | FormBody "form_entry list"

record outbound =
  url :: string
  http_method :: string
  http_headers :: "(string \<times> string) list"
  http_body :: http_body

text \<open>
  What awaiting a call can do: \<^verbatim>\<open>fetch\<close> rejects, or resolves to a response whose
  \<^verbatim>\<open>json()\<close> rejects (\<open>None\<close>) or yields a value.
\<close>

datatype fetch_result =
    Rejected
  | Resolved "jsval option"

datatype log_line =
    Warn string
  | Error string

text \<open>
  The runtime the handler runs in: the clock (\<^verbatim>\<open>new Date().toISOString()\<close>), the rendering
  \<^verbatim>\<open>new Date(p).toLocaleString('id-ID')\<close> of a primitive, and the network.
\<close>

record runtime =
  now_iso :: string
  toLocaleString_id :: "jsval \<Rightarrow> string"
  fetch :: "outbound \<Rightarrow> fetch_result"

record outcome =
  reply :: response
  calls :: "outbound list"
  console :: "log_line list"

subsection \<open>The text of the summary\<close>

text \<open>The pictographs of the source's literals, as their UTF-8 bytes.\<close>

definition emoji_memo :: string where
  "emoji_memo = [CHR 0xF0, CHR 0x9F, CHR 0x93, CHR 0x9D]"

definition emoji_person :: string where
  "emoji_person = [CHR 0xF0, CHR 0x9F, CHR 0x91, CHR 0xA4]"

definition emoji_id :: string where
  "emoji_id = [CHR 0xF0, CHR 0x9F, CHR 0x86, CHR 0x94]"

definition emoji_pin :: string where
  "emoji_pin = [CHR 0xF0, CHR 0x9F, CHR 0x93, CHR 0x8D]"

definition emoji_house :: string where
  "emoji_house = [CHR 0xF0, CHR 0x9F, CHR 0x8F, CHR 0xA0]"

definition emoji_phone :: string where
  "emoji_phone = [CHR 0xF0, CHR 0x9F, CHR 0x93, CHR 0x9E]"

definition emoji_envelope :: string where
  "emoji_envelope = [CHR 0xE2, CHR 0x9C, CHR 0x89, CHR 0xEF, CHR 0xB8, CHR 0x8F]"

definition emoji_calendar :: string where
  "emoji_calendar = [CHR 0xF0, CHR 0x9F, CHR 0x97, CHR 0x93, CHR 0xEF, CHR 0xB8, CHR 0x8F]"

definition emoji_label :: string where
  "emoji_label = [CHR 0xF0, CHR 0x9F, CHR 0x8F, CHR 0xB7, CHR 0xEF, CHR 0xB8, CHR 0x8F]"

definition emoji_writing :: string where
  "emoji_writing = [CHR 0xE2, CHR 0x9C, CHR 0x8D, CHR 0xEF, CHR 0xB8, CHR 0x8F]"

definition emoji_page :: string where
  "emoji_page = [CHR 0xF0, CHR 0x9F, CHR 0x93, CHR 0x84]"

definition emoji_paperclip :: string where
  "emoji_paperclip = [CHR 0xF0, CHR 0x9F, CHR 0x93, CHR 0x8E]"

definition newline :: string where
  "newline = [CHR 0x0A]"

text \<open>The fields the handler destructures from the payload (lines 23 to 36).\<close>

record submission =
  nama_lengkap :: jsval
  nik :: jsval
  tempat_lahir :: jsval
  tanggal_lahir :: jsval
  alamat :: jsval
  no_telepon :: jsval
  email :: jsval
  alasan :: jsval
  foto_ktp_url :: jsval
  surat_keterangan_url :: jsval
  tanggal_pengajuan :: jsval
  status :: jsval

text \<open>A destructuring default applies when the property is \<^verbatim>\<open>undefined\<close>, and only then.\<close>

definition default_to :: "jsval \<Rightarrow> jsval \<Rightarrow> jsval" where
  "default_to v d = (if v = JUndefined then d else v)"

definition destructure :: "runtime \<Rightarrow> jsval \<Rightarrow> submission" where
  "destructure rt payload =
     \<lparr> nama_lengkap = default_to (get_prop payload ''nama_lengkap'') (JStr ''-''),
       nik = default_to (get_prop payload ''nik'') (JStr ''-''),
       tempat_lahir = default_to (get_prop payload ''tempat_lahir'') (JStr ''-''),
       tanggal_lahir = default_to (get_prop payload ''tanggal_lahir'') (JStr ''-''),
       alamat = default_to (get_prop payload ''alamat'') (JStr ''-''),
       no_telepon = default_to (get_prop payload ''no_telepon'') (JStr ''-''),
       email = default_to (get_prop payload ''email'') (JStr ''-''),
       alasan = default_to (get_prop payload ''alasan'') (JStr ''-''),
       foto_ktp_url = default_to (get_prop payload ''foto_ktp_url'') JNull,
       surat_keterangan_url = default_to (get_prop payload ''surat_keterangan_url'') JNull,
       tanggal_pengajuan = default_to (get_prop payload ''tanggal_pengajuan'') (JStr (now_iso rt)),
       status = default_to (get_prop payload ''status'') (JStr ''Menunggu'') \<rparr>"

text \<open>
  Lines 39 to 54: the lines of the summary, joined by a line feed. The template literals
  are evaluated in order, and each conversion can throw (\<open>None\<close>).
\<close>

definition summary_text :: "runtime \<Rightarrow> submission \<Rightarrow> string option" where
  "summary_text rt s =
     do {
       v_nama \<leftarrow> ToString (nama_lengkap s);
       v_nik \<leftarrow> ToString (nik s);
       v_tempat \<leftarrow> ToString (tempat_lahir s);
       v_lahir \<leftarrow> ToString (tanggal_lahir s);
       v_alamat \<leftarrow> ToString (alamat s);
       v_telepon \<leftarrow> ToString (no_telepon s);
       v_email \<leftarrow> ToString (email s);
       v_date \<leftarrow> ToPrimitive (tanggal_pengajuan s);
       v_status \<leftarrow> ToString (status s);
       v_alasan \<leftarrow> ToString (alasan s);
       Some (join_with newline
         [ emoji_memo @ '' <b>Pengajuan Izin Baru</b>'',
           [],
           emoji_person @ '' <b>Nama</b>: '' @ v_nama,
           emoji_id @ '' <b>NIK</b>: '' @ v_nik,
           emoji_pin @ '' <b>TTL</b>: '' @ v_tempat @ '', '' @ v_lahir,
           emoji_house @ '' <b>Alamat</b>: '' @ v_alamat,
           emoji_phone @ '' <b>Kontak</b>: '' @ v_telepon,
           emoji_envelope @ '' <b>Email</b>: '' @ v_email,
           emoji_calendar @ '' <b>Tanggal Pengajuan</b>: '' @ toLocaleString_id rt v_date,
           emoji_label @ '' <b>Status</b>: '' @ v_status,
           [],
           emoji_writing @ '' <b>Alasan</b>:'' @ newline @ v_alasan,
           [] ])
     }"

subsection \<open>The helpers of the handler\<close>

definition api_url :: "string \<Rightarrow> string \<Rightarrow> string" where
  "api_url token api_method = ''https://api.telegram.org/bot'' @ token @ ''/'' @ api_method"

text \<open>Lines 57 to 66: the summary call.\<close>

definition sendMessage_request :: "string \<Rightarrow> string \<Rightarrow> string \<Rightarrow> outbound" where
  "sendMessage_request token chat txt =
     \<lparr> url = api_url token ''sendMessage'',
       http_method = ''POST'',
       http_headers = [(''Content-Type'', ''application/json'')],
       http_body = JsonBody (JObj
         [ (''chat_id'', JStr chat),
           (''text'', JStr txt),
           (''parse_mode'', JStr ''HTML''),
           (''disable_web_page_preview'', JBool True) ]) \<rparr>"

text \<open>Lines 75 to 77.\<close>

definition isDataUrl :: "jsval \<Rightarrow> bool" where
  "isDataUrl s = (case s of JStr t \<Rightarrow> startsWith t ''data:'' | _ \<Rightarrow> False)"

text \<open>
  Line 81, the match of \<^verbatim>\<open>/^data:([^;]+);base64,(.*)$/\<close>: the two groups, or \<open>None\<close>.
  The class \<^verbatim>\<open>[^;]\<close> cannot cross a semicolon, so the first group is the whole run up
  to the first semicolon after \<^verbatim>\<open>data:\<close>, and that semicolon has to start \<^verbatim>\<open>;base64,\<close>. The
  second group runs to the end of the input and holds no line terminator.
\<close>

definition match_data_url :: "string \<Rightarrow> (string \<times> string) option" where
  "match_data_url s =
     (if \<not> startsWith s ''data:'' then None
      else
        let rest = drop 5 s;
            m1 = takeWhile (\<lambda>c. c \<noteq> CHR '';'') rest;
            after = dropWhile (\<lambda>c. c \<noteq> CHR '';'') rest
        in if m1 = [] then None
           else if \<not> startsWith after '';base64,'' then None
           else if has_line_terminator (drop 8 after) then None
           else Some (m1, drop 8 after))"

record parsed =
  buffer :: buffer
  filename :: string
  mime :: string

text \<open>Lines 80 to 90.\<close>

definition parseDataUrl :: "string \<Rightarrow> string \<Rightarrow> parsed option" where
  "parseDataUrl dataUrl fallbackName =
     (case match_data_url dataUrl of
        None \<Rightarrow> None
      | Some (m1, b64) \<Rightarrow>
          let ext =
                (case at_index (split_on CHR ''/'' m1) 1 of
                   None \<Rightarrow> ''bin''
                 | Some sub \<Rightarrow>
                     if sub = [] then ''bin''
                     else (case at_index (split_on CHR ''+'' sub) 0 of
                             None \<Rightarrow> ''undefined''
                           | Some e \<Rightarrow> e))
          in Some \<lparr> buffer = Buffer_from_base64 b64,
                    filename = fallbackName @ ''.'' @ ext,
                    mime = m1 \<rparr>)"

text \<open>
  The global \<^verbatim>\<open>FormData\<close> of the runtime the source names (Node 18 and later).
  \<^verbatim>\<open>append(name, value)\<close> stores a string field. \<^verbatim>\<open>append(name, value, filename)\<close> stores a
  file when the value is a Blob and throws a \<^verbatim>\<open>TypeError\<close> for any other value, a Buffer
  included; \<open>None\<close> is that exception.
\<close>

datatype file_value =
    BufferValue buffer
  | BlobValue buffer

definition formdata_append :: "form_entry list \<Rightarrow> string \<Rightarrow> string \<Rightarrow> form_entry list" where
  "formdata_append fd name v = fd @ [Field name v]"

definition formdata_append_file ::
  "form_entry list \<Rightarrow> string \<Rightarrow> file_value \<Rightarrow> string \<Rightarrow> form_entry list option" where
  "formdata_append_file fd name v fname =
     (case v of
        BlobValue b \<Rightarrow> Some (fd @ [File name b fname])
      | BufferValue b \<Rightarrow> None)"

text \<open>
  Lines 93 to 106. The result is the calls issued and the value returned, \<open>None\<close> when
  the function throws: at the append of line 99 (before any call), when \<^verbatim>\<open>fetch\<close> rejects,
  or when the reply is not JSON. Line 99 appends the Buffer that \<^verbatim>\<open>parseDataUrl\<close> made. The
  \<^verbatim>\<open>mime\<close> argument is not used.
\<close>

definition uploadFile ::
  "runtime \<Rightarrow> string \<Rightarrow> string \<Rightarrow> buffer \<Rightarrow> string \<Rightarrow> string \<Rightarrow> string \<Rightarrow> string \<Rightarrow> string
     \<Rightarrow> outbound list \<times> jsval option" where
  "uploadFile rt token chat buf fname mime_type api_method fieldName caption =
     (let fd0 = formdata_append [] ''chat_id'' chat;
          fd1 = (if caption \<noteq> [] then formdata_append fd0 ''caption'' caption else fd0)
      in case formdata_append_file fd1 fieldName (BufferValue buf) fname of
           None \<Rightarrow> ([], None)
         | Some fd \<Rightarrow>
             (let r = \<lparr> url = api_url token api_method,
                        http_method = ''POST'',
                        http_headers = [],
                        http_body = FormBody fd \<rparr>
              in ([r], case fetch rt r of Rejected \<Rightarrow> None | Resolved j \<Rightarrow> j)))"

text \<open>The by-reference calls of lines 123 to 127 and 153 to 157.\<close>

definition reference_request :: "string \<Rightarrow> string \<Rightarrow> string \<Rightarrow> string \<Rightarrow> jsval \<Rightarrow> string \<Rightarrow> outbound" where
  "reference_request token chat api_method fieldName v caption =
     \<lparr> url = api_url token api_method,
       http_method = ''POST'',
       http_headers = [(''Content-Type'', ''application/json'')],
       http_body = JsonBody (JObj
         [ (''chat_id'', JStr chat),
           (fieldName, v),
           (''caption'', JStr caption) ]) \<rparr>"

definition caption_foto_ktp :: string where
  "caption_foto_ktp = emoji_page @ '' Foto KTP''"

definition caption_surat_keterangan :: string where
  "caption_surat_keterangan = emoji_paperclip @ '' Surat Keterangan''"

text \<open>
  Lines 109 to 132: the calls issued for the identification photo and the lines logged.
  \<^verbatim>\<open>isDataUrl\<close> holds of strings only, so the last case of the inner distinction is
  never reached.
\<close>

definition send_foto_ktp :: "runtime \<Rightarrow> string \<Rightarrow> string \<Rightarrow> jsval \<Rightarrow> outbound list \<times> log_line list" where
  "send_foto_ktp rt token chat v =
     (if truthy v then
        (if isDataUrl v then
           (case v of
              JStr s \<Rightarrow>
                (case parseDataUrl s ''foto_ktp'' of
                   None \<Rightarrow> ([], [])
                 | Some p \<Rightarrow>
                     (case uploadFile rt token chat (buffer p) (filename p) (mime p)
                             ''sendPhoto'' ''photo'' caption_foto_ktp of
                        (cs, None) \<Rightarrow> (cs, [Warn ''failed sending foto_ktp (dataurl):''])
                      | (cs, Some j) \<Rightarrow> (cs, [])))
            | _ \<Rightarrow> ([], []))
         else
           (let r = reference_request token chat ''sendPhoto'' ''photo'' v caption_foto_ktp
            in ([r], case fetch rt r of
                       Rejected \<Rightarrow> [Warn ''failed sending foto_ktp (url):'']
                     | Resolved j \<Rightarrow> [])))
      else ([], []))"

text \<open>Lines 135 to 162: the same for the supporting document.\<close>

definition send_surat_keterangan :: "runtime \<Rightarrow> string \<Rightarrow> string \<Rightarrow> jsval \<Rightarrow> outbound list \<times> log_line list" where
  "send_surat_keterangan rt token chat v =
     (if truthy v then
        (if isDataUrl v then
           (case v of
              JStr s \<Rightarrow>
                (case parseDataUrl s ''surat_keterangan'' of
                   None \<Rightarrow> ([], [])
                 | Some p \<Rightarrow>
                     (let isImage = startsWith (mime p) ''image/'';
                          up = (if isImage
                                then uploadFile rt token chat (buffer p) (filename p) (mime p)
                                       ''sendPhoto'' ''photo'' caption_surat_keterangan
                                else uploadFile rt token chat (buffer p) (filename p) (mime p)
                                       ''sendDocument'' ''document'' caption_surat_keterangan)
                      in (case up of
                            (cs, None) \<Rightarrow> (cs, [Warn ''failed sending surat_keterangan (dataurl):''])
                          | (cs, Some j) \<Rightarrow> (cs, []))))
            | _ \<Rightarrow> ([], []))
         else
           (let r = reference_request token chat ''sendDocument'' ''document'' v caption_surat_keterangan
            in ([r], case fetch rt r of
                       Rejected \<Rightarrow> [Warn ''failed sending surat_keterangan (url):'']
                     | Resolved j \<Rightarrow> [])))
      else ([], []))"

subsection \<open>The handler\<close>

definition method_not_allowed :: outcome where
  "method_not_allowed =
     \<lparr> reply = \<lparr> res_status = 405,
                 res_headers = [(''Allow'', ''POST'')],
                 res_json = \<lparr> ok = False, error = Some ''METHOD_NOT_ALLOWED'' \<rparr> \<rparr>,
       calls = [],
       console = [] \<rparr>"

definition missing_env :: outcome where
  "missing_env =
     \<lparr> reply = \<lparr> res_status = 500,
                 res_headers = [],
                 res_json = \<lparr> ok = False, error = Some ''MISSING_ENV'' \<rparr> \<rparr>,
       calls = [],
       console = [] \<rparr>"

text \<open>Lines 165 to 168: the outer \<^verbatim>\<open>catch\<close>, after the calls \<open>cs\<close> were issued.\<close>

definition server_error :: "outbound list \<Rightarrow> outcome" where
  "server_error cs =
     \<lparr> reply = \<lparr> res_status = 500,
                 res_headers = [],
                 res_json = \<lparr> ok = False, error = Some ''SERVER_ERROR'' \<rparr> \<rparr>,
       calls = cs,
       console = [Error ''telegram error''] \<rparr>"

definition ok_reply :: response where
  "ok_reply = \<lparr> res_status = 200, res_headers = [], res_json = \<lparr> ok = True, error = None \<rparr> \<rparr>"

text \<open>Line 22: \<^verbatim>\<open>req.body || {}\<close>.\<close>

definition payload_of :: "request \<Rightarrow> jsval" where
  "payload_of req = (if truthy (req_body req) then req_body req else JObj [])"

definition submission_of :: "runtime \<Rightarrow> request \<Rightarrow> submission" where
  "submission_of rt req = destructure rt (payload_of req)"

text \<open>
  Lines 38 to 72: compose the summary, send it, look at the reply. \<open>Inl cs\<close> is an
  exception after the calls \<open>cs\<close> (a field that has no string, a rejected call, a reply
  that is not JSON, a reply that is \<^verbatim>\<open>null\<close>, of which \<^verbatim>\<open>.ok\<close> cannot be read); \<open>Inr\<close> is
  the call and the warning logged when the reply's \<^verbatim>\<open>ok\<close> is falsy.
\<close>

definition send_summary ::
  "runtime \<Rightarrow> string \<Rightarrow> string \<Rightarrow> submission \<Rightarrow> outbound list + outbound \<times> log_line list" where
  "send_summary rt token chat s =
     (case summary_text rt s of
        None \<Rightarrow> Inl []
      | Some txt \<Rightarrow>
          (let msg = sendMessage_request token chat txt
           in case fetch rt msg of
                Rejected \<Rightarrow> Inl [msg]
              | Resolved None \<Rightarrow> Inl [msg]
              | Resolved (Some sendMessageData) \<Rightarrow>
                  if sendMessageData = JNull \<or> sendMessageData = JUndefined then Inl [msg]
                  else Inr (msg, if \<not> truthy (get_prop sendMessageData ''ok'')
                                 then [Warn ''sendMessage failed''] else [])))"

text \<open>
  Lines 21 to 164, the body of the \<^verbatim>\<open>try\<close>: an exception of the summary goes to the
  outer \<^verbatim>\<open>catch\<close>; the attachments catch their own and the handler answers 200.
\<close>

definition try_block :: "runtime \<Rightarrow> string \<Rightarrow> string \<Rightarrow> request \<Rightarrow> outcome" where
  "try_block rt token chat req =
     (let s = submission_of rt req
      in case send_summary rt token chat s of
           Inl cs \<Rightarrow> server_error cs
         | Inr (msg, w) \<Rightarrow>
             (let foto = send_foto_ktp rt token chat (foto_ktp_url s);
                  surat = send_surat_keterangan rt token chat (surat_keterangan_url s)
              in \<lparr> reply = ok_reply,
                   calls = msg # fst foto @ fst surat,
                   console = w @ snd foto @ snd surat \<rparr>))"

text \<open>Lines 9 to 19 and the \<^verbatim>\<open>try\<close>.\<close>

definition handler :: "runtime \<Rightarrow> env \<Rightarrow> request \<Rightarrow> outcome" where
  "handler rt e req =
     (if req_method req \<noteq> ''POST'' then method_not_allowed
      else if \<not> env_truthy (BOT_TOKEN e) \<or> \<not> env_truthy (CHAT_ID e) then missing_env
      else (case (BOT_TOKEN e, CHAT_ID e) of
              (Some token, Some chat) \<Rightarrow> try_block rt token chat req
            | _ \<Rightarrow> missing_env))"

subsection \<open>Vocabulary of the properties\<close>

text \<open>Both secrets are set and not empty, so the check of line 17 passes.\<close>

definition configured :: "env \<Rightarrow> string \<Rightarrow> string \<Rightarrow> bool" where
  "configured e token chat =
     (BOT_TOKEN e = Some token \<and> token \<noteq> [] \<and> CHAT_ID e = Some chat \<and> chat \<noteq> [])"

text \<open>
  An attachment that \<^verbatim>\<open>isDataUrl\<close> takes for inline data and line 81 does not match.
  (\<^verbatim>\<open>parseDataUrl\<close> returns \<^verbatim>\<open>null\<close> exactly when the match fails.)
\<close>

definition unparseable_inline :: "jsval \<Rightarrow> bool" where
  "unparseable_inline v =
     (isDataUrl v \<and> (case v of JStr u \<Rightarrow> match_data_url u = None | _ \<Rightarrow> False))"

text \<open>The property \<open>k\<close> of the payload, \<^verbatim>\<open>undefined\<close> when the request does not have it.\<close>

definition body_field :: "request \<Rightarrow> string \<Rightarrow> jsval" where
  "body_field req k = get_prop (payload_of req) k"

text \<open>The textual fields of the summary, and all the fields the handler reads.\<close>

definition textual_fields :: "string list" where
  "textual_fields =
     [''nama_lengkap'', ''nik'', ''tempat_lahir'', ''tanggal_lahir'', ''alamat'',
      ''no_telepon'', ''email'', ''alasan'', ''tanggal_pengajuan'', ''status'']"

definition submission_fields :: "string list" where
  "submission_fields = textual_fields @ [''foto_ktp_url'', ''surat_keterangan_url'']"

subsection \<open>Sample inputs\<close>

text \<open>A runtime whose platform answers every call with \<^verbatim>\<open>{ ok: true }\<close>.\<close>

definition sample_runtime :: runtime where
  "sample_runtime =
     \<lparr> now_iso = ''2024-05-01T03:00:00.000Z'',
       toLocaleString_id = (\<lambda>p. ''1/5/2024, 10.00.00''),
       fetch = (\<lambda>r. Resolved (Some (JObj [(''ok'', JBool True)]))) \<rparr>"

text \<open>A runtime whose platform answers every call with \<^verbatim>\<open>{ ok: false }\<close>.\<close>

definition refusing_runtime :: runtime where
  "refusing_runtime =
     \<lparr> now_iso = ''2024-05-01T03:00:00.000Z'',
       toLocaleString_id = (\<lambda>p. ''1/5/2024, 10.00.00''),
       fetch = (\<lambda>r. Resolved (Some (JObj [(''ok'', JBool False)]))) \<rparr>"

definition sample_env :: env where
  "sample_env = \<lparr> BOT_TOKEN = Some ''123:abc'', CHAT_ID = Some ''-1001'' \<rparr>"

definition post :: "jsval \<Rightarrow> request" where
  "post b = \<lparr> req_method = ''POST'', req_body = b \<rparr>"

definition full_fields :: "(string \<times> jsval) list" where
  "full_fields =
     [ (''nama_lengkap'', JStr ''Budi''),
       (''nik'', JStr ''3174''),
       (''tempat_lahir'', JStr ''Bogor''),
       (''tanggal_lahir'', JStr ''1990-01-02''),
       (''alamat'', JStr ''Jl. Melati 1''),
       (''no_telepon'', JStr ''0812''),
       (''email'', JStr ''budi@example.com''),
       (''alasan'', JStr ''Sakit''),
       (''tanggal_pengajuan'', JStr ''2024-05-01T03:00:00.000Z''),
       (''status'', JStr ''Menunggu'') ]"

text \<open>The summary that \<open>full_fields\<close> composes under \<open>sample_runtime\<close>.\<close>

definition sample_text :: string where
  "sample_text = join_with newline
     [ emoji_memo @ '' <b>Pengajuan Izin Baru</b>'',
       [],
       emoji_person @ '' <b>Nama</b>: Budi'',
       emoji_id @ '' <b>NIK</b>: 3174'',
       emoji_pin @ '' <b>TTL</b>: Bogor, 1990-01-02'',
       emoji_house @ '' <b>Alamat</b>: Jl. Melati 1'',
       emoji_phone @ '' <b>Kontak</b>: 0812'',
       emoji_envelope @ '' <b>Email</b>: budi@example.com'',
       emoji_calendar @ '' <b>Tanggal Pengajuan</b>: 1/5/2024, 10.00.00'',
       emoji_label @ '' <b>Status</b>: Menunggu'',
       [],
       emoji_writing @ '' <b>Alasan</b>:'' @ newline @ ''Sakit'',
       [] ]"

definition sample_summary :: outbound where
  "sample_summary = sendMessage_request ''123:abc'' ''-1001'' sample_text"

definition both_urls :: jsval where
  "both_urls = JObj (full_fields @
     [ (''foto_ktp_url'', JStr ''https://files.example/ktp.jpg''),
       (''surat_keterangan_url'', JStr ''https://files.example/surat.png'') ])"

definition both_unparseable :: jsval where
  "both_unparseable = JObj (full_fields @
     [ (''foto_ktp_url'', JStr ''data:image/jpeg;base64''),
       (''surat_keterangan_url'', JStr ''data:text/plain,hello'') ])"

definition both_plain_strings :: jsval where
  "both_plain_strings = JObj (full_fields @
     [ (''foto_ktp_url'', JStr ''ktp scan, see mail''),
       (''surat_keterangan_url'', JStr ''surat.pdf'') ])"

definition inline_jpeg :: jsval where
  "inline_jpeg = JObj (full_fields @
     [ (''foto_ktp_url'', JStr ''data:image/jpeg;base64,/9j/4AAQ'') ])"

definition inline_pdf :: jsval where
  "inline_pdf = JObj (full_fields @
     [ (''surat_keterangan_url'', JStr ''data:application/pdf;base64,JVBERi0x'') ])"

definition inline_png :: jsval where
  "inline_png = JObj (full_fields @
     [ (''surat_keterangan_url'', JStr ''data:image/png;base64,iVBORw0K'') ])"

definition photo_url_only :: jsval where
  "photo_url_only = JObj (full_fields @
     [ (''foto_ktp_url'', JStr ''https://files.example/ktp.jpg'') ])"

definition document_url_only :: jsval where
  "document_url_only = JObj (full_fields @
     [ (''surat_keterangan_url'', JStr ''https://files.example/surat.png'') ])"

section \<open>Properties\<close>

subsection \<open>Splitting and matching\<close>

lemma split_on_not_Nil: "split_on c s \<noteq> []"
  by (induction s) (auto split: list.splits)

lemma hd_split_on: "hd (split_on c s) = takeWhile (\<lambda>x. x \<noteq> c) s"
  by (induction s) (auto split: list.splits simp: split_on_not_Nil)

lemma split_on_append: "c \<notin> set a \<Longrightarrow> split_on c (a @ c # b) = a # split_on c b"
  by (induction a) (auto split: list.splits)

lemma at_index_0_split_on: "at_index (split_on c s) 0 = Some (takeWhile (\<lambda>x. x \<noteq> c) s)"
  using split_on_not_Nil [of c s] hd_split_on [of c s]
  by (cases "split_on c s") (auto simp: at_index_def)

lemma at_index_1_split_on:
  "c \<notin> set a \<Longrightarrow> at_index (split_on c (a @ c # b)) 1 = Some (takeWhile (\<lambda>x. x \<noteq> c) b)"
  using split_on_not_Nil [of c b] hd_split_on [of c b]
  by (cases "split_on c b") (auto simp: at_index_def split_on_append)

lemma startsWith_append: "startsWith (p @ s) p"
  by (simp add: startsWith_def)

lemma startsWith_decompose: "startsWith s p \<Longrightarrow> s = p @ drop (length p) s"
  unfolding startsWith_def by (metis append_take_drop_id)

text \<open>
  What line 81 accepts, said without the algorithm: \<^verbatim>\<open>data:\<close>, a media type that is not
  empty and holds no semicolon, \<^verbatim>\<open>;base64,\<close>, and a payload free of line terminators.
\<close>

lemma match_data_url_iff:
  "match_data_url s = Some (m, p) \<longleftrightarrow>
     s = ''data:'' @ m @ '';base64,'' @ p \<and> m \<noteq> [] \<and> CHR '';'' \<notin> set m \<and> \<not> has_line_terminator p"
proof
  assume a: "match_data_url s = Some (m, p)"
  let ?rest = "drop 5 s"
  let ?after = "dropWhile (\<lambda>c. c \<noteq> CHR '';'') ?rest"
  from a have sw: "startsWith s ''data:''"
    by (auto simp: match_data_url_def split: if_splits)
  with a have m: "m = takeWhile (\<lambda>c. c \<noteq> CHR '';'') ?rest" and ne: "m \<noteq> []"
    and sa: "startsWith ?after '';base64,''" and p: "p = drop 8 ?after"
    and lt: "\<not> has_line_terminator p"
    by (auto simp: match_data_url_def Let_def split: if_splits)
  have l5: "length ''data:'' = 5" and l8: "length '';base64,'' = 8"
    by simp_all
  have s: "s = ''data:'' @ ?rest"
    using startsWith_decompose [OF sw] by (simp only: l5)
  have after: "?after = '';base64,'' @ p"
    using startsWith_decompose [OF sa] by (simp only: l8 p)
  have "?rest = m @ ?after"
    unfolding m by simp
  with s after have "s = ''data:'' @ m @ '';base64,'' @ p"
    by metis
  moreover have "CHR '';'' \<notin> set m"
    unfolding m by (auto dest: set_takeWhileD)
  ultimately show "s = ''data:'' @ m @ '';base64,'' @ p \<and> m \<noteq> [] \<and> CHR '';'' \<notin> set m \<and> \<not> has_line_terminator p"
    using ne lt by simp
next
  assume b: "s = ''data:'' @ m @ '';base64,'' @ p \<and> m \<noteq> [] \<and> CHR '';'' \<notin> set m \<and> \<not> has_line_terminator p"
  then have s: "s = ''data:'' @ m @ '';base64,'' @ p" and nm: "CHR '';'' \<notin> set m" by simp_all
  have tw: "takeWhile (\<lambda>c. c \<noteq> CHR '';'') (m @ '';base64,'' @ p) = m"
    using nm by (auto simp: takeWhile_tail)
  have dw: "dropWhile (\<lambda>c. c \<noteq> CHR '';'') (m @ '';base64,'' @ p) = '';base64,'' @ p"
    using nm by (auto simp: dropWhile_append3)
  show "match_data_url s = Some (m, p)"
    using b tw dw by (simp add: match_data_url_def startsWith_def Let_def)
qed

lemma parseDataUrl_None_iff: "parseDataUrl u name = None \<longleftrightarrow> match_data_url u = None"
  by (auto simp: parseDataUrl_def Let_def split: option.splits)

lemma parseDataUrl_unmatched: "match_data_url u = None \<Longrightarrow> parseDataUrl u name = None"
  by (simp add: parseDataUrl_None_iff)

lemma parseDataUrl_Some:
  "match_data_url u = Some (m, b64) \<Longrightarrow>
   \<exists>ext. parseDataUrl u name = Some \<lparr> buffer = Buffer_from_base64 b64, filename = name @ ''.'' @ ext, mime = m \<rparr>"
  by (simp add: parseDataUrl_def Let_def)

lemma isDataUrl_JStr: "isDataUrl (JStr u) = startsWith u ''data:''"
  by (simp add: isDataUrl_def)

lemma isDataUrl_truthy: "isDataUrl v \<Longrightarrow> truthy v"
  by (cases v) (auto simp: isDataUrl_def startsWith_def)

lemma match_data_url_isDataUrl: "match_data_url u = Some r \<Longrightarrow> isDataUrl (JStr u)"
  by (auto simp: match_data_url_def isDataUrl_def split: if_splits)

lemma takeWhile_absent: "c \<notin> set xs \<Longrightarrow> takeWhile (\<lambda>x. x \<noteq> c) xs = xs"
  by (induction xs) auto

lemma takeWhile_past: "c \<notin> set xs \<Longrightarrow> takeWhile (\<lambda>x. x \<noteq> c) (xs @ ys) = xs @ takeWhile (\<lambda>x. x \<noteq> c) ys"
  by (induction xs) auto

lemma takeWhile_upto: "c \<notin> set xs \<Longrightarrow> takeWhile (\<lambda>x. x \<noteq> c) (xs @ c # ys) = xs"
  by (induction xs) auto

text \<open>
  The extension \<^verbatim>\<open>parseDataUrl\<close> derives from a media type \<^verbatim>\<open>type/subtype\<close> or
  \<^verbatim>\<open>type/subtype+suffix\<close> is the subtype.
\<close>

lemma parseDataUrl_subtype:
  assumes "match_data_url u = Some (ty @ ''/'' @ sub @ sfx, b64)"
    and "CHR ''/'' \<notin> set ty" and "sub \<noteq> []"
    and "CHR ''/'' \<notin> set sub" and "CHR ''+'' \<notin> set sub"
    and "sfx = [] \<or> hd sfx = CHR ''+''"
  shows "parseDataUrl u name =
     Some \<lparr> buffer = Buffer_from_base64 b64, filename = name @ ''.'' @ sub,
            mime = ty @ ''/'' @ sub @ sfx \<rparr>"
proof -
  let ?seg = "takeWhile (\<lambda>x. x \<noteq> CHR ''/'') (sub @ sfx)"
  have one: "at_index (split_on CHR ''/'' (ty @ ''/'' @ sub @ sfx)) 1 = Some ?seg"
    using at_index_1_split_on [OF assms(2), of "sub @ sfx"] by simp
  from assms(3) obtain x xs where sub: "sub = x # xs" by (cases sub) auto
  with assms(4) have "?seg \<noteq> []" by auto
  moreover have "takeWhile (\<lambda>x. x \<noteq> CHR ''+'') ?seg = sub"
  proof (cases sfx)
    case Nil
    with assms(4,5) show ?thesis by (simp add: takeWhile_absent)
  next
    case (Cons c cs)
    with assms(6) have "sfx = CHR ''+'' # cs" by simp
    then have "?seg = sub @ CHR ''+'' # takeWhile (\<lambda>x. x \<noteq> CHR ''/'') cs"
      using assms(4) by (simp add: takeWhile_past)
    with assms(5) show ?thesis by (simp add: takeWhile_upto)
  qed
  ultimately show ?thesis
    using assms(1) one by (simp add: parseDataUrl_def at_index_0_split_on)
qed

subsection \<open>The attachment stages\<close>

lemma send_foto_ktp_falsy: "\<not> truthy v \<Longrightarrow> send_foto_ktp rt token chat v = ([], [])"
  by (simp add: send_foto_ktp_def)

lemma send_surat_keterangan_falsy: "\<not> truthy v \<Longrightarrow> send_surat_keterangan rt token chat v = ([], [])"
  by (simp add: send_surat_keterangan_def)

lemma send_foto_ktp_unparseable:
  "unparseable_inline v \<Longrightarrow> send_foto_ktp rt token chat v = ([], [])"
  by (cases v) (auto simp: unparseable_inline_def send_foto_ktp_def parseDataUrl_unmatched)

lemma send_surat_keterangan_unparseable:
  "unparseable_inline v \<Longrightarrow> send_surat_keterangan rt token chat v = ([], [])"
  by (cases v) (auto simp: unparseable_inline_def send_surat_keterangan_def parseDataUrl_unmatched)

lemma send_foto_ktp_reference:
  "truthy v \<Longrightarrow> \<not> isDataUrl v \<Longrightarrow>
   fst (send_foto_ktp rt token chat v) =
     [reference_request token chat ''sendPhoto'' ''photo'' v caption_foto_ktp]"
  by (simp add: send_foto_ktp_def Let_def)

lemma send_surat_keterangan_reference:
  "truthy v \<Longrightarrow> \<not> isDataUrl v \<Longrightarrow>
   fst (send_surat_keterangan rt token chat v) =
     [reference_request token chat ''sendDocument'' ''document'' v caption_surat_keterangan]"
  by (simp add: send_surat_keterangan_def Let_def)

text \<open>
  \<^verbatim>\<open>uploadFile\<close> never gets to its \<^verbatim>\<open>fetch\<close>: the append of line 99 throws. So an inline
  attachment that \<^verbatim>\<open>parseDataUrl\<close> accepts ends in the \<^verbatim>\<open>catch\<close> of its stage, with a
  warning and no call.
\<close>

lemma uploadFile_raises:
  "uploadFile rt token chat buf fname mt api_method fieldName caption = ([], None)"
  by (simp add: uploadFile_def formdata_append_file_def Let_def)

lemma send_foto_ktp_inline:
  assumes "parseDataUrl u ''foto_ktp'' = Some p"
  shows "send_foto_ktp rt token chat (JStr u) = ([], [Warn ''failed sending foto_ktp (dataurl):''])"
proof -
  from assms obtain r where "match_data_url u = Some r"
    by (cases "match_data_url u") (auto simp: parseDataUrl_def)
  then have d: "isDataUrl (JStr u)" by (rule match_data_url_isDataUrl)
  then have "truthy (JStr u)" by (rule isDataUrl_truthy)
  with d assms show ?thesis
    by (simp add: send_foto_ktp_def uploadFile_raises)
qed

lemma send_surat_keterangan_inline:
  assumes "parseDataUrl u ''surat_keterangan'' = Some p"
  shows "send_surat_keterangan rt token chat (JStr u) =
     ([], [Warn ''failed sending surat_keterangan (dataurl):''])"
proof -
  from assms obtain r where "match_data_url u = Some r"
    by (cases "match_data_url u") (auto simp: parseDataUrl_def)
  then have d: "isDataUrl (JStr u)" by (rule match_data_url_isDataUrl)
  then have "truthy (JStr u)" by (rule isDataUrl_truthy)
  with d assms show ?thesis
    by (simp add: send_surat_keterangan_def uploadFile_raises Let_def)
qed

subsection \<open>The handler, stage by stage\<close>

text \<open>The payload is never \<^verbatim>\<open>null\<close> or \<^verbatim>\<open>undefined\<close>, so destructuring it cannot throw.\<close>

lemma payload_of_not_nullish: "payload_of req \<noteq> JNull \<and> payload_of req \<noteq> JUndefined"
  by (cases "req_body req") (auto simp: payload_of_def)

lemma handler_configured:
  "req_method req = ''POST'' \<Longrightarrow> configured e token chat \<Longrightarrow>
   handler rt e req = try_block rt token chat req"
  by (simp add: handler_def configured_def)

lemma handler_summary_raises:
  "req_method req = ''POST'' \<Longrightarrow> configured e token chat \<Longrightarrow>
   send_summary rt token chat (submission_of rt req) = Inl cs \<Longrightarrow>
   handler rt e req = server_error cs"
  by (simp add: handler_configured try_block_def)

lemma handler_summary_completes:
  "req_method req = ''POST'' \<Longrightarrow> configured e token chat \<Longrightarrow>
   send_summary rt token chat (submission_of rt req) = Inr (msg, w) \<Longrightarrow>
   handler rt e req =
     \<lparr> reply = ok_reply,
       calls = msg # fst (send_foto_ktp rt token chat (foto_ktp_url (submission_of rt req)))
                   @ fst (send_surat_keterangan rt token chat (surat_keterangan_url (submission_of rt req))),
       console = w @ snd (send_foto_ktp rt token chat (foto_ktp_url (submission_of rt req)))
                   @ snd (send_surat_keterangan rt token chat (surat_keterangan_url (submission_of rt req))) \<rparr>"
  by (simp add: handler_configured try_block_def Let_def)

lemma send_summary_cases:
  "send_summary rt token chat s = Inr (msg, w) \<longleftrightarrow>
     (\<exists>txt d. summary_text rt s = Some txt \<and> msg = sendMessage_request token chat txt
        \<and> fetch rt msg = Resolved (Some d) \<and> d \<noteq> JNull \<and> d \<noteq> JUndefined
        \<and> w = (if \<not> truthy (get_prop d ''ok'') then [Warn ''sendMessage failed''] else []))"
  by (auto simp: send_summary_def Let_def split: option.splits fetch_result.splits)

lemma send_summary_composed:
  "summary_text rt s = Some txt \<Longrightarrow>
   send_summary rt token chat s = Inl [sendMessage_request token chat txt]
   \<or> (\<exists>w. send_summary rt token chat s = Inr (sendMessage_request token chat txt, w))"
  by (auto simp: send_summary_def Let_def split: option.splits fetch_result.splits)

lemma submission_of_fields:
  "submission_of rt req =
     \<lparr> nama_lengkap = default_to (body_field req ''nama_lengkap'') (JStr ''-''),
       nik = default_to (body_field req ''nik'') (JStr ''-''),
       tempat_lahir = default_to (body_field req ''tempat_lahir'') (JStr ''-''),
       tanggal_lahir = default_to (body_field req ''tanggal_lahir'') (JStr ''-''),
       alamat = default_to (body_field req ''alamat'') (JStr ''-''),
       no_telepon = default_to (body_field req ''no_telepon'') (JStr ''-''),
       email = default_to (body_field req ''email'') (JStr ''-''),
       alasan = default_to (body_field req ''alasan'') (JStr ''-''),
       foto_ktp_url = default_to (body_field req ''foto_ktp_url'') JNull,
       surat_keterangan_url = default_to (body_field req ''surat_keterangan_url'') JNull,
       tanggal_pengajuan = default_to (body_field req ''tanggal_pengajuan'') (JStr (now_iso rt)),
       status = default_to (body_field req ''status'') (JStr ''Menunggu'') \<rparr>"
  by (simp add: submission_of_def destructure_def body_field_def)

lemma foto_ktp_url_submission:
  "foto_ktp_url (submission_of rt req) = default_to (body_field req ''foto_ktp_url'') JNull"
  by (simp add: submission_of_fields)

lemma surat_keterangan_url_submission:
  "surat_keterangan_url (submission_of rt req) = default_to (body_field req ''surat_keterangan_url'') JNull"
  by (simp add: submission_of_fields)

lemma default_to_JStr: "default_to (JStr u) d = JStr u"
  by (simp add: default_to_def)

lemma truthy_default_to_JNull: "truthy (default_to v JNull) = truthy v"
  by (cases v) (simp_all add: default_to_def)

lemma summary_text_defaults:
  assumes "\<forall>k \<in> set textual_fields. body_field req k = JUndefined"
  shows "summary_text rt (submission_of rt req) = Some (join_with newline
         [ emoji_memo @ '' <b>Pengajuan Izin Baru</b>'',
           [],
           emoji_person @ '' <b>Nama</b>: -'',
           emoji_id @ '' <b>NIK</b>: -'',
           emoji_pin @ '' <b>TTL</b>: -, -'',
           emoji_house @ '' <b>Alamat</b>: -'',
           emoji_phone @ '' <b>Kontak</b>: -'',
           emoji_envelope @ '' <b>Email</b>: -'',
           emoji_calendar @ '' <b>Tanggal Pengajuan</b>: '' @ toLocaleString_id rt (JStr (now_iso rt)),
           emoji_label @ '' <b>Status</b>: Menunggu'',
           [],
           emoji_writing @ '' <b>Alasan</b>:'' @ newline @ ''-'',
           [] ])"
proof -
  from assms have
    "body_field req ''nama_lengkap'' = JUndefined" "body_field req ''nik'' = JUndefined"
    "body_field req ''tempat_lahir'' = JUndefined" "body_field req ''tanggal_lahir'' = JUndefined"
    "body_field req ''alamat'' = JUndefined" "body_field req ''no_telepon'' = JUndefined"
    "body_field req ''email'' = JUndefined" "body_field req ''alasan'' = JUndefined"
    "body_field req ''tanggal_pengajuan'' = JUndefined" "body_field req ''status'' = JUndefined"
    by (simp_all add: textual_fields_def)
  then show ?thesis
    by (simp add: summary_text_def submission_of_fields default_to_def)
qed


text \<open>
  The other ways the summary can fail are not swallowed: a rejected call, a reply that is
  not JSON and a reply that is \<^verbatim>\<open>null\<close> all reach the outer \<^verbatim>\<open>catch\<close>, after the one call.
\<close>

lemma summary_transport_failure_is_server_error:
  assumes "req_method req = ''POST''"
    and "configured e token chat"
    and "summary_text rt (submission_of rt req) = Some t"
    and "fetch rt (sendMessage_request token chat t) = Rejected
         \<or> fetch rt (sendMessage_request token chat t) = Resolved None
         \<or> fetch rt (sendMessage_request token chat t) = Resolved (Some JNull)"
  shows "handler rt e req = server_error [sendMessage_request token chat t]"
proof -
  from assms(3,4)
  have "send_summary rt token chat (submission_of rt req) = Inl [sendMessage_request token chat t]"
    by (auto simp: send_summary_def Let_def)
  from handler_summary_raises [OF assms(1,2) this] show ?thesis .
qed

text \<open>A field that has no string conversion reaches the outer \<^verbatim>\<open>catch\<close> before any call.\<close>

lemma summary_text_raises_is_server_error:
  assumes "req_method req = ''POST''"
    and "configured e token chat"
    and "summary_text rt (submission_of rt req) = None"
  shows "handler rt e req = server_error []"
proof -
  from assms(3)
  have "send_summary rt token chat (submission_of rt req) = Inl []"
    by (simp add: send_summary_def)
  from handler_summary_raises [OF assms(1,2) this] show ?thesis .
qed

text \<open>An inline attachment that line 81 does not match is dropped without a log line.\<close>

lemma unparseable_logs_nothing:
  "unparseable_inline v \<Longrightarrow> snd (send_foto_ktp rt token chat v) = []
     \<and> snd (send_surat_keterangan rt token chat v) = []"
  by (simp add: send_foto_ktp_unparseable send_surat_keterangan_unparseable)

lemma startsWith_data: "startsWith u ''data:'' \<longleftrightarrow> take 5 u = ''data:''"
  by (simp add: startsWith_def eval_nat_numeral)

lemma match_data_url_needs_prefix: "take 5 u \<noteq> ''data:'' \<Longrightarrow> match_data_url u = None"
  by (simp add: match_data_url_def startsWith_data)

text \<open>The by-reference calls, written out.\<close>

lemma send_foto_ktp_remote:
  assumes "u \<noteq> []" and "take 5 u \<noteq> ''data:''"
  shows "fst (send_foto_ktp rt token chat (JStr u)) =
     [\<lparr> url = ''https://api.telegram.org/bot'' @ token @ ''/sendPhoto'',
         http_method = ''POST'',
         http_headers = [(''Content-Type'', ''application/json'')],
         http_body = JsonBody (JObj
           [ (''chat_id'', JStr chat),
             (''photo'', JStr u),
             (''caption'', JStr ([CHR 0xF0, CHR 0x9F, CHR 0x93, CHR 0x84] @ '' Foto KTP'')) ]) \<rparr>]"
  using assms
  by (simp add: send_foto_ktp_reference isDataUrl_JStr startsWith_data reference_request_def
      api_url_def caption_foto_ktp_def emoji_page_def)

lemma send_surat_keterangan_remote:
  assumes "u \<noteq> []" and "take 5 u \<noteq> ''data:''"
  shows "fst (send_surat_keterangan rt token chat (JStr u)) =
     [\<lparr> url = ''https://api.telegram.org/bot'' @ token @ ''/sendDocument'',
         http_method = ''POST'',
         http_headers = [(''Content-Type'', ''application/json'')],
         http_body = JsonBody (JObj
           [ (''chat_id'', JStr chat),
             (''document'', JStr u),
             (''caption'', JStr ([CHR 0xF0, CHR 0x9F, CHR 0x93, CHR 0x8E] @ '' Surat Keterangan'')) ]) \<rparr>]"
  using assms
  by (simp add: send_surat_keterangan_reference isDataUrl_JStr startsWith_data reference_request_def
      api_url_def caption_surat_keterangan_def emoji_paperclip_def)

subsection \<open>Unfolding the model on concrete inputs\<close>

lemmas sample_defs =
  post_def configured_def sample_env_def sample_runtime_def refusing_runtime_def body_field_def
  payload_of_def textual_fields_def full_fields_def sample_summary_def sample_text_def
  summary_text_def submission_of_def destructure_def default_to_def send_summary_def
  both_urls_def both_unparseable_def both_plain_strings_def inline_jpeg_def inline_pdf_def
  inline_png_def

lemmas stage_defs =
  send_foto_ktp_def send_surat_keterangan_def isDataUrl_def startsWith_def uploadFile_def
  formdata_append_def formdata_append_file_def
  parseDataUrl_def match_data_url_def at_index_def unparseable_inline_def Let_def

section \<open>The claims\<close>

text \<open>
  C1. With the summary delivered, the handler answers 200 with \<^verbatim>\<open>{ ok: true }\<close>; an
  identification photo that is an inline reference line 81 does not match adds no call
  (the calls are the summary and those of the supporting document), and likewise an
  unmatched supporting document adds none.
\<close>

theorem unparseable_inline_attachment_skipped:
  assumes "req_method req = ''POST''"
    and "configured e token chat"
    and "send_summary rt token chat (submission_of rt req) = Inr (msg, w)"
  shows "reply (handler rt e req) =
       \<lparr> res_status = 200, res_headers = [], res_json = \<lparr> ok = True, error = None \<rparr> \<rparr>
     \<and> (unparseable_inline (body_field req ''foto_ktp_url'') \<longrightarrow>
          calls (handler rt e req) =
            msg # fst (send_surat_keterangan rt token chat (surat_keterangan_url (submission_of rt req))))
     \<and> (unparseable_inline (body_field req ''surat_keterangan_url'') \<longrightarrow>
          calls (handler rt e req) =
            msg # fst (send_foto_ktp rt token chat (foto_ktp_url (submission_of rt req))))"
proof -
  have unp: "unparseable_inline v \<Longrightarrow> default_to v JNull = v" for v
    by (cases v) (simp_all add: default_to_def unparseable_inline_def isDataUrl_def)
  from handler_summary_completes [OF assms] show ?thesis
    by (simp add: ok_reply_def foto_ktp_url_submission surat_keterangan_url_submission unp
        send_foto_ktp_unparseable send_surat_keterangan_unparseable)
qed

theorem unparseable_inline_attachment_skipped_witness:
  "req_method (post both_unparseable) = ''POST''
   \<and> configured sample_env ''123:abc'' ''-1001''
   \<and> send_summary sample_runtime ''123:abc'' ''-1001'' (submission_of sample_runtime (post both_unparseable))
       = Inr (sample_summary, [])
   \<and> unparseable_inline (body_field (post both_unparseable) ''foto_ktp_url'')
   \<and> unparseable_inline (body_field (post both_unparseable) ''surat_keterangan_url'')
   \<and> reply (handler sample_runtime sample_env (post both_unparseable)) =
       \<lparr> res_status = 200, res_headers = [], res_json = \<lparr> ok = True, error = None \<rparr> \<rparr>
   \<and> calls (handler sample_runtime sample_env (post both_unparseable)) = [sample_summary]"
  using unparseable_inline_attachment_skipped
    [where req = "post both_unparseable" and e = sample_env and token = "''123:abc''"
       and chat = "''-1001''" and rt = sample_runtime and msg = sample_summary and w = "[]"]
  by (simp add: sample_defs stage_defs)

text \<open>
  C2. A POST request that finds either secret absent (unset, or set to the empty string)
  is answered 500 with the error code \<^verbatim>\<open>MISSING_ENV\<close>, and no call to the platform is made.
\<close>

theorem missing_secret_is_config_error:
  "req_method req = ''POST'' \<Longrightarrow>
   \<not> env_truthy (BOT_TOKEN e) \<or> \<not> env_truthy (CHAT_ID e) \<Longrightarrow>
   reply (handler rt e req) =
     \<lparr> res_status = 500,
       res_headers = [],
       res_json = \<lparr> ok = False, error = Some ''MISSING_ENV'' \<rparr> \<rparr>
   \<and> calls (handler rt e req) = []"
  by (auto simp: handler_def missing_env_def)

theorem missing_secret_is_config_error_witness:
  "req_method (post (JObj full_fields)) = ''POST''
   \<and> \<not> env_truthy (CHAT_ID \<lparr> BOT_TOKEN = Some ''123:abc'', CHAT_ID = None \<rparr>)
   \<and> reply (handler sample_runtime \<lparr> BOT_TOKEN = Some ''123:abc'', CHAT_ID = None \<rparr> (post (JObj full_fields))) =
     \<lparr> res_status = 500,
       res_headers = [],
       res_json = \<lparr> ok = False, error = Some ''MISSING_ENV'' \<rparr> \<rparr>
   \<and> calls (handler sample_runtime \<lparr> BOT_TOKEN = Some ''123:abc'', CHAT_ID = None \<rparr> (post (JObj full_fields))) = []"
  using missing_secret_is_config_error
    [where req = "post (JObj full_fields)" and rt = sample_runtime
       and e = "\<lparr> BOT_TOKEN = Some ''123:abc'', CHAT_ID = None \<rparr>"]
  by (simp add: post_def)

text \<open>
  C3. With the summary delivered, an attachment given as a remote URL (a string that is
  not empty and does not start with \<^verbatim>\<open>data:\<close>) is not decoded: the string goes unchanged
  into one JSON call. For the identification photo that call is \<^verbatim>\<open>sendPhoto\<close> with the
  string as \<^verbatim>\<open>photo\<close>; for the supporting document it is \<^verbatim>\<open>sendDocument\<close> with the string
  as \<^verbatim>\<open>document\<close>, whatever the URL looks like. Each holds whatever the other field is;
  with both, the calls are the summary and these two.
\<close>

theorem remote_urls_passed_by_reference:
  assumes "req_method req = ''POST''"
    and "configured e token chat"
    and "send_summary rt token chat (submission_of rt req) = Inr (msg, w)"
  shows "(body_field req ''foto_ktp_url'' = JStr u1 \<and> u1 \<noteq> [] \<and> take 5 u1 \<noteq> ''data:'' \<longrightarrow>
          calls (handler rt e req) =
            msg
            # \<lparr> url = ''https://api.telegram.org/bot'' @ token @ ''/sendPhoto'',
                http_method = ''POST'',
                http_headers = [(''Content-Type'', ''application/json'')],
                http_body = JsonBody (JObj
                  [ (''chat_id'', JStr chat),
                    (''photo'', JStr u1),
                    (''caption'', JStr ([CHR 0xF0, CHR 0x9F, CHR 0x93, CHR 0x84] @ '' Foto KTP'')) ]) \<rparr>
            # fst (send_surat_keterangan rt token chat (surat_keterangan_url (submission_of rt req))))
     \<and> (body_field req ''surat_keterangan_url'' = JStr u2 \<and> u2 \<noteq> [] \<and> take 5 u2 \<noteq> ''data:'' \<longrightarrow>
          calls (handler rt e req) =
            msg
            # fst (send_foto_ktp rt token chat (foto_ktp_url (submission_of rt req)))
            @ [\<lparr> url = ''https://api.telegram.org/bot'' @ token @ ''/sendDocument'',
                 http_method = ''POST'',
                 http_headers = [(''Content-Type'', ''application/json'')],
                 http_body = JsonBody (JObj
                   [ (''chat_id'', JStr chat),
                     (''document'', JStr u2),
                     (''caption'', JStr ([CHR 0xF0, CHR 0x9F, CHR 0x93, CHR 0x8E] @ '' Surat Keterangan'')) ]) \<rparr>])
     \<and> (body_field req ''foto_ktp_url'' = JStr u1 \<and> u1 \<noteq> [] \<and> take 5 u1 \<noteq> ''data:''
          \<and> body_field req ''surat_keterangan_url'' = JStr u2 \<and> u2 \<noteq> [] \<and> take 5 u2 \<noteq> ''data:'' \<longrightarrow>
          calls (handler rt e req) =
            [ msg,
              \<lparr> url = ''https://api.telegram.org/bot'' @ token @ ''/sendPhoto'',
                http_method = ''POST'',
                http_headers = [(''Content-Type'', ''application/json'')],
                http_body = JsonBody (JObj
                  [ (''chat_id'', JStr chat),
                    (''photo'', JStr u1),
                    (''caption'', JStr ([CHR 0xF0, CHR 0x9F, CHR 0x93, CHR 0x84] @ '' Foto KTP'')) ]) \<rparr>,
              \<lparr> url = ''https://api.telegram.org/bot'' @ token @ ''/sendDocument'',
                http_method = ''POST'',
                http_headers = [(''Content-Type'', ''application/json'')],
                http_body = JsonBody (JObj
                  [ (''chat_id'', JStr chat),
                    (''document'', JStr u2),
                    (''caption'', JStr ([CHR 0xF0, CHR 0x9F, CHR 0x93, CHR 0x8E] @ '' Surat Keterangan'')) ]) \<rparr> ])"
  using handler_summary_completes [OF assms]
    send_foto_ktp_remote [of u1 rt token chat] send_surat_keterangan_remote [of u2 rt token chat]
  by (simp add: foto_ktp_url_submission surat_keterangan_url_submission default_to_JStr)

theorem remote_urls_passed_by_reference_witness:
  "req_method (post both_urls) = ''POST''
   \<and> configured sample_env ''123:abc'' ''-1001''
   \<and> send_summary sample_runtime ''123:abc'' ''-1001'' (submission_of sample_runtime (post both_urls))
       = Inr (sample_summary, [])
   \<and> body_field (post both_urls) ''foto_ktp_url'' = JStr ''https://files.example/ktp.jpg''
   \<and> take 5 ''https://files.example/ktp.jpg'' \<noteq> ''data:''
   \<and> body_field (post both_urls) ''surat_keterangan_url'' = JStr ''https://files.example/surat.png''
   \<and> take 5 ''https://files.example/surat.png'' \<noteq> ''data:''
   \<and> calls (handler sample_runtime sample_env (post both_urls)) =
       [ sample_summary,
         \<lparr> url = ''https://api.telegram.org/bot123:abc/sendPhoto'',
           http_method = ''POST'',
           http_headers = [(''Content-Type'', ''application/json'')],
           http_body = JsonBody (JObj
             [ (''chat_id'', JStr ''-1001''),
               (''photo'', JStr ''https://files.example/ktp.jpg''),
               (''caption'', JStr ([CHR 0xF0, CHR 0x9F, CHR 0x93, CHR 0x84] @ '' Foto KTP'')) ]) \<rparr>,
         \<lparr> url = ''https://api.telegram.org/bot123:abc/sendDocument'',
           http_method = ''POST'',
           http_headers = [(''Content-Type'', ''application/json'')],
           http_body = JsonBody (JObj
             [ (''chat_id'', JStr ''-1001''),
               (''document'', JStr ''https://files.example/surat.png''),
               (''caption'', JStr ([CHR 0xF0, CHR 0x9F, CHR 0x93, CHR 0x8E] @ '' Surat Keterangan'')) ]) \<rparr> ]
   \<and> body_field (post photo_url_only) ''foto_ktp_url'' = JStr ''https://files.example/ktp.jpg''
   \<and> calls (handler sample_runtime sample_env (post photo_url_only)) =
       [ sample_summary,
         \<lparr> url = ''https://api.telegram.org/bot123:abc/sendPhoto'',
           http_method = ''POST'',
           http_headers = [(''Content-Type'', ''application/json'')],
           http_body = JsonBody (JObj
             [ (''chat_id'', JStr ''-1001''),
               (''photo'', JStr ''https://files.example/ktp.jpg''),
               (''caption'', JStr ([CHR 0xF0, CHR 0x9F, CHR 0x93, CHR 0x84] @ '' Foto KTP'')) ]) \<rparr> ]
   \<and> body_field (post document_url_only) ''surat_keterangan_url'' = JStr ''https://files.example/surat.png''
   \<and> calls (handler sample_runtime sample_env (post document_url_only)) =
       [ sample_summary,
         \<lparr> url = ''https://api.telegram.org/bot123:abc/sendDocument'',
           http_method = ''POST'',
           http_headers = [(''Content-Type'', ''application/json'')],
           http_body = JsonBody (JObj
             [ (''chat_id'', JStr ''-1001''),
               (''document'', JStr ''https://files.example/surat.png''),
               (''caption'', JStr ([CHR 0xF0, CHR 0x9F, CHR 0x93, CHR 0x8E] @ '' Surat Keterangan'')) ]) \<rparr> ]"
  using remote_urls_passed_by_reference
    [where req = "post both_urls" and e = sample_env and token = "''123:abc''"
       and chat = "''-1001''" and rt = sample_runtime and msg = sample_summary and w = "[]"
       and ?u1.0 = "''https://files.example/ktp.jpg''" and ?u2.0 = "''https://files.example/surat.png''"]
    remote_urls_passed_by_reference
    [where req = "post photo_url_only" and e = sample_env and token = "''123:abc''"
       and chat = "''-1001''" and rt = sample_runtime and msg = sample_summary and w = "[]"
       and ?u1.0 = "''https://files.example/ktp.jpg''" and ?u2.0 = "''https://files.example/surat.png''"]
    remote_urls_passed_by_reference
    [where req = "post document_url_only" and e = sample_env and token = "''123:abc''"
       and chat = "''-1001''" and rt = sample_runtime and msg = sample_summary and w = "[]"
       and ?u1.0 = "''https://files.example/ktp.jpg''" and ?u2.0 = "''https://files.example/surat.png''"]
  by (simp add: sample_defs stage_defs photo_url_only_def document_url_only_def
      reference_request_def api_url_def caption_foto_ktp_def caption_surat_keterangan_def
      emoji_page_def emoji_paperclip_def)

text \<open>
  C4. When the platform answers the summary call with a body whose \<^verbatim>\<open>ok\<close> is false, the
  handler logs a warning and goes on: it issues the calls of both attachment stages after
  the summary call and answers 200 with \<^verbatim>\<open>{ ok: true }\<close>, so the failure reported in the
  body never reaches the caller.
\<close>

theorem summary_protocol_failure_not_surfaced:
  assumes "req_method req = ''POST''"
    and "configured e token chat"
    and "summary_text rt (submission_of rt req) = Some t"
    and "fetch rt (sendMessage_request token chat t) = Resolved (Some d)"
    and "d \<noteq> JNull" and "d \<noteq> JUndefined"
    and "\<not> truthy (get_prop d ''ok'')"
  shows "reply (handler rt e req) =
       \<lparr> res_status = 200, res_headers = [], res_json = \<lparr> ok = True, error = None \<rparr> \<rparr>
     \<and> calls (handler rt e req) =
         sendMessage_request token chat t
         # fst (send_foto_ktp rt token chat (foto_ktp_url (submission_of rt req)))
         @ fst (send_surat_keterangan rt token chat (surat_keterangan_url (submission_of rt req)))
     \<and> console (handler rt e req) =
         Warn ''sendMessage failed''
         # snd (send_foto_ktp rt token chat (foto_ktp_url (submission_of rt req)))
         @ snd (send_surat_keterangan rt token chat (surat_keterangan_url (submission_of rt req)))"
proof -
  from assms(3-7)
  have "send_summary rt token chat (submission_of rt req) =
          Inr (sendMessage_request token chat t, [Warn ''sendMessage failed''])"
    by (simp add: send_summary_cases)
  from handler_summary_completes [OF assms(1,2) this] show ?thesis
    by (simp add: ok_reply_def)
qed

theorem summary_protocol_failure_not_surfaced_witness:
  "req_method (post both_urls) = ''POST''
   \<and> configured sample_env ''123:abc'' ''-1001''
   \<and> summary_text refusing_runtime (submission_of refusing_runtime (post both_urls)) = Some sample_text
   \<and> fetch refusing_runtime sample_summary = Resolved (Some (JObj [(''ok'', JBool False)]))
   \<and> \<not> truthy (get_prop (JObj [(''ok'', JBool False)]) ''ok'')
   \<and> reply (handler refusing_runtime sample_env (post both_urls)) =
       \<lparr> res_status = 200, res_headers = [], res_json = \<lparr> ok = True, error = None \<rparr> \<rparr>
   \<and> calls (handler refusing_runtime sample_env (post both_urls)) =
       [ sample_summary,
         reference_request ''123:abc'' ''-1001'' ''sendPhoto'' ''photo''
           (JStr ''https://files.example/ktp.jpg'') caption_foto_ktp,
         reference_request ''123:abc'' ''-1001'' ''sendDocument'' ''document''
           (JStr ''https://files.example/surat.png'') caption_surat_keterangan ]
   \<and> console (handler refusing_runtime sample_env (post both_urls)) = [Warn ''sendMessage failed'']"
  using summary_protocol_failure_not_surfaced
    [where req = "post both_urls" and e = sample_env and token = "''123:abc''"
       and chat = "''-1001''" and rt = refusing_runtime and t = sample_text
       and d = "JObj [(''ok'', JBool False)]"]
  by (simp add: sample_defs stage_defs)

text \<open>
  C5. The claim: an inline identification photo of media type \<^verbatim>\<open>image/jpeg\<close> is uploaded
  as \<^verbatim>\<open>foto_ktp.jpeg\<close> in the multipart field \<^verbatim>\<open>photo\<close> of a \<^verbatim>\<open>sendPhoto\<close> call. The code
  derives that file name and asks \<^verbatim>\<open>uploadFile\<close> for that upload (line 115), but line 99
  appends a Buffer with a file name, which the runtime's \<^verbatim>\<open>FormData\<close> rejects. The exception
  is caught at line 116: a warning is logged, no call is issued for the photo, and the
  reply is still 200.
\<close>

theorem inline_jpeg_photo_upload_is_not_issued:
  assumes "req_method req = ''POST''"
    and "configured e token chat"
    and "send_summary rt token chat (submission_of rt req) = Inr (msg, w)"
    and "body_field req ''foto_ktp_url'' = JStr (''data:image/jpeg;base64,'' @ b64)"
    and "\<not> has_line_terminator b64"
  shows "parseDataUrl (''data:image/jpeg;base64,'' @ b64) ''foto_ktp'' =
       Some \<lparr> buffer = Buffer_from_base64 b64, filename = ''foto_ktp.jpeg'', mime = ''image/jpeg'' \<rparr>
     \<and> calls (handler rt e req) =
         msg # fst (send_surat_keterangan rt token chat (surat_keterangan_url (submission_of rt req)))
     \<and> console (handler rt e req) =
         w @ Warn ''failed sending foto_ktp (dataurl):''
           # snd (send_surat_keterangan rt token chat (surat_keterangan_url (submission_of rt req)))
     \<and> reply (handler rt e req) =
         \<lparr> res_status = 200, res_headers = [], res_json = \<lparr> ok = True, error = None \<rparr> \<rparr>"
proof -
  have "match_data_url (''data:image/jpeg;base64,'' @ b64) = Some (''image'' @ ''/'' @ ''jpeg'' @ [], b64)"
    using assms(5) by (simp add: match_data_url_iff)
  then have "parseDataUrl (''data:image/jpeg;base64,'' @ b64) ''foto_ktp'' =
      Some \<lparr> buffer = Buffer_from_base64 b64, filename = ''foto_ktp'' @ ''.'' @ ''jpeg'',
             mime = ''image'' @ ''/'' @ ''jpeg'' @ [] \<rparr>"
    by (intro parseDataUrl_subtype) simp_all
  then have parsed: "parseDataUrl (''data:image/jpeg;base64,'' @ b64) ''foto_ktp'' =
      Some \<lparr> buffer = Buffer_from_base64 b64, filename = ''foto_ktp.jpeg'', mime = ''image/jpeg'' \<rparr>"
    by simp
  from send_foto_ktp_inline [OF parsed, of rt token chat]
    handler_summary_completes [OF assms(1-3)] assms(4) parsed
  show ?thesis
    by (simp add: foto_ktp_url_submission default_to_JStr ok_reply_def)
qed

theorem inline_jpeg_photo_upload_is_not_issued_witness:
  "req_method (post inline_jpeg) = ''POST''
   \<and> configured sample_env ''123:abc'' ''-1001''
   \<and> send_summary sample_runtime ''123:abc'' ''-1001'' (submission_of sample_runtime (post inline_jpeg))
       = Inr (sample_summary, [])
   \<and> body_field (post inline_jpeg) ''foto_ktp_url'' = JStr (''data:image/jpeg;base64,'' @ ''/9j/4AAQ'')
   \<and> \<not> has_line_terminator ''/9j/4AAQ''
   \<and> parseDataUrl ''data:image/jpeg;base64,/9j/4AAQ'' ''foto_ktp'' =
       Some \<lparr> buffer = Buffer_from_base64 ''/9j/4AAQ'', filename = ''foto_ktp.jpeg'',
              mime = ''image/jpeg'' \<rparr>
   \<and> calls (handler sample_runtime sample_env (post inline_jpeg)) = [sample_summary]
   \<and> map url (calls (handler sample_runtime sample_env (post inline_jpeg))) =
       [''https://api.telegram.org/bot123:abc/sendMessage'']
   \<and> console (handler sample_runtime sample_env (post inline_jpeg)) =
       [Warn ''failed sending foto_ktp (dataurl):'']
   \<and> reply (handler sample_runtime sample_env (post inline_jpeg)) =
       \<lparr> res_status = 200, res_headers = [], res_json = \<lparr> ok = True, error = None \<rparr> \<rparr>"
  using inline_jpeg_photo_upload_is_not_issued
    [where req = "post inline_jpeg" and e = sample_env and token = "''123:abc''"
       and chat = "''-1001''" and rt = sample_runtime and msg = sample_summary and w = "[]"
       and ?b64.0 = "''/9j/4AAQ''"]
  by (simp add: sample_defs stage_defs sendMessage_request_def api_url_def)

text \<open>
  C6. The claim: an inline supporting document is uploaded by its declared media type, an
  image through \<^verbatim>\<open>sendPhoto\<close>, anything else (such as \<^verbatim>\<open>application/pdf\<close>) through
  \<^verbatim>\<open>sendDocument\<close>. The code reads the media type and chooses between the two (lines 139
  to 145), but either way \<^verbatim>\<open>uploadFile\<close> throws at line 99, where a Buffer is appended with
  a file name. The exception is caught at line 146: whatever the media type, a warning
  is logged, no call is issued for the document, and the reply is still 200.
\<close>

theorem inline_document_upload_is_not_issued:
  assumes "req_method req = ''POST''"
    and "configured e token chat"
    and "send_summary rt token chat (submission_of rt req) = Inr (msg, w)"
    and "body_field req ''surat_keterangan_url'' = JStr (''data:'' @ m @ '';base64,'' @ b64)"
    and "m \<noteq> []" and "CHR '';'' \<notin> set m"
    and "\<not> has_line_terminator b64"
  shows "map_option mime (parseDataUrl (''data:'' @ m @ '';base64,'' @ b64) ''surat_keterangan'') = Some m
     \<and> calls (handler rt e req) =
         msg # fst (send_foto_ktp rt token chat (foto_ktp_url (submission_of rt req)))
     \<and> console (handler rt e req) =
         w @ snd (send_foto_ktp rt token chat (foto_ktp_url (submission_of rt req)))
           @ [Warn ''failed sending surat_keterangan (dataurl):'']
     \<and> reply (handler rt e req) =
         \<lparr> res_status = 200, res_headers = [], res_json = \<lparr> ok = True, error = None \<rparr> \<rparr>"
proof -
  have "match_data_url (''data:'' @ m @ '';base64,'' @ b64) = Some (m, b64)"
    using assms(5-7) by (simp add: match_data_url_iff)
  from parseDataUrl_Some [OF this, of "''surat_keterangan''"] obtain p
    where parsed: "parseDataUrl (''data:'' @ m @ '';base64,'' @ b64) ''surat_keterangan'' = Some p"
      and "mime p = m"
    by auto
  from send_surat_keterangan_inline [OF parsed, of rt token chat]
    handler_summary_completes [OF assms(1-3)] assms(4) parsed \<open>mime p = m\<close>
  show ?thesis
    by (simp add: surat_keterangan_url_submission default_to_JStr ok_reply_def)
qed

theorem inline_document_upload_is_not_issued_witness:
  "req_method (post inline_pdf) = ''POST''
   \<and> configured sample_env ''123:abc'' ''-1001''
   \<and> send_summary sample_runtime ''123:abc'' ''-1001'' (submission_of sample_runtime (post inline_pdf))
       = Inr (sample_summary, [])
   \<and> body_field (post inline_pdf) ''surat_keterangan_url'' =
       JStr (''data:'' @ ''application/pdf'' @ '';base64,'' @ ''JVBERi0x'')
   \<and> CHR '';'' \<notin> set ''application/pdf''
   \<and> \<not> has_line_terminator ''JVBERi0x''
   \<and> map_option mime (parseDataUrl ''data:application/pdf;base64,JVBERi0x'' ''surat_keterangan'')
       = Some ''application/pdf''
   \<and> calls (handler sample_runtime sample_env (post inline_pdf)) = [sample_summary]
   \<and> map url (calls (handler sample_runtime sample_env (post inline_pdf))) =
       [''https://api.telegram.org/bot123:abc/sendMessage'']
   \<and> console (handler sample_runtime sample_env (post inline_pdf)) =
       [Warn ''failed sending surat_keterangan (dataurl):'']
   \<and> reply (handler sample_runtime sample_env (post inline_pdf)) =
       \<lparr> res_status = 200, res_headers = [], res_json = \<lparr> ok = True, error = None \<rparr> \<rparr>
   \<and> body_field (post inline_png) ''surat_keterangan_url'' =
       JStr (''data:'' @ ''image/png'' @ '';base64,'' @ ''iVBORw0K'')
   \<and> map_option mime (parseDataUrl ''data:image/png;base64,iVBORw0K'' ''surat_keterangan'')
       = Some ''image/png''
   \<and> calls (handler sample_runtime sample_env (post inline_png)) = [sample_summary]
   \<and> console (handler sample_runtime sample_env (post inline_png)) =
       [Warn ''failed sending surat_keterangan (dataurl):'']"
  using inline_document_upload_is_not_issued
    [where req = "post inline_pdf" and e = sample_env and token = "''123:abc''"
       and chat = "''-1001''" and rt = sample_runtime and msg = sample_summary and w = "[]"
       and m = "''application/pdf''" and ?b64.0 = "''JVBERi0x''"]
    inline_document_upload_is_not_issued
    [where req = "post inline_png" and e = sample_env and token = "''123:abc''"
       and chat = "''-1001''" and rt = sample_runtime and msg = sample_summary and w = "[]"
       and m = "''image/png''" and ?b64.0 = "''iVBORw0K''"]
  by (simp add: sample_defs stage_defs sendMessage_request_def api_url_def)

text \<open>
  C7. A request whose method is not POST is answered 405 with the body
  \<^verbatim>\<open>{ ok: false, error: 'METHOD_NOT_ALLOWED' }\<close> and the header \<^verbatim>\<open>Allow: POST\<close>; nothing is
  sent to the platform.
\<close>

theorem non_POST_is_rejected:
  "req_method req \<noteq> ''POST'' \<Longrightarrow>
   reply (handler rt e req) =
     \<lparr> res_status = 405,
       res_headers = [(''Allow'', ''POST'')],
       res_json = \<lparr> ok = False, error = Some ''METHOD_NOT_ALLOWED'' \<rparr> \<rparr>
   \<and> calls (handler rt e req) = []"
  by (simp add: handler_def method_not_allowed_def)

theorem non_POST_is_rejected_witness:
  "req_method \<lparr> req_method = ''GET'', req_body = JObj full_fields \<rparr> \<noteq> ''POST''
   \<and> reply (handler sample_runtime sample_env \<lparr> req_method = ''GET'', req_body = JObj full_fields \<rparr>) =
     \<lparr> res_status = 405,
       res_headers = [(''Allow'', ''POST'')],
       res_json = \<lparr> ok = False, error = Some ''METHOD_NOT_ALLOWED'' \<rparr> \<rparr>
   \<and> calls (handler sample_runtime sample_env \<lparr> req_method = ''GET'', req_body = JObj full_fields \<rparr>) = []"
  using non_POST_is_rejected
    [where req = "\<lparr> req_method = ''GET'', req_body = JObj full_fields \<rparr>"
       and rt = sample_runtime and e = sample_env]
  by simp



text \<open>
  C9. A POST request with valid configuration that omits every optional field issues one
  call, the \<^verbatim>\<open>sendMessage\<close> of a summary in which every textual field reads \<^verbatim>\<open>-\<close> and the
  status reads \<^verbatim>\<open>Menunggu\<close>; the date line renders the time of receipt. The text is
  written out, line feed by line feed.
\<close>

theorem omitted_fields_render_placeholders:
  assumes "req_method req = ''POST''"
    and "configured e token chat"
    and "\<forall>k \<in> set submission_fields. body_field req k = JUndefined"
  shows "calls (handler rt e req) =
     [\<lparr> url = ''https://api.telegram.org/bot'' @ token @ ''/sendMessage'',
         http_method = ''POST'',
         http_headers = [(''Content-Type'', ''application/json'')],
         http_body = JsonBody (JObj
           [ (''chat_id'', JStr chat),
             (''text'', JStr
                ([CHR 0xF0, CHR 0x9F, CHR 0x93, CHR 0x9D] @ '' <b>Pengajuan Izin Baru</b>'' @ [CHR 0x0A]
                 @ [CHR 0x0A]
                 @ [CHR 0xF0, CHR 0x9F, CHR 0x91, CHR 0xA4] @ '' <b>Nama</b>: -'' @ [CHR 0x0A]
                 @ [CHR 0xF0, CHR 0x9F, CHR 0x86, CHR 0x94] @ '' <b>NIK</b>: -'' @ [CHR 0x0A]
                 @ [CHR 0xF0, CHR 0x9F, CHR 0x93, CHR 0x8D] @ '' <b>TTL</b>: -, -'' @ [CHR 0x0A]
                 @ [CHR 0xF0, CHR 0x9F, CHR 0x8F, CHR 0xA0] @ '' <b>Alamat</b>: -'' @ [CHR 0x0A]
                 @ [CHR 0xF0, CHR 0x9F, CHR 0x93, CHR 0x9E] @ '' <b>Kontak</b>: -'' @ [CHR 0x0A]
                 @ [CHR 0xE2, CHR 0x9C, CHR 0x89, CHR 0xEF, CHR 0xB8, CHR 0x8F] @ '' <b>Email</b>: -'' @ [CHR 0x0A]
                 @ [CHR 0xF0, CHR 0x9F, CHR 0x97, CHR 0x93, CHR 0xEF, CHR 0xB8, CHR 0x8F]
                 @ '' <b>Tanggal Pengajuan</b>: '' @ toLocaleString_id rt (JStr (now_iso rt)) @ [CHR 0x0A]
                 @ [CHR 0xF0, CHR 0x9F, CHR 0x8F, CHR 0xB7, CHR 0xEF, CHR 0xB8, CHR 0x8F]
                 @ '' <b>Status</b>: Menunggu'' @ [CHR 0x0A]
                 @ [CHR 0x0A]
                 @ [CHR 0xE2, CHR 0x9C, CHR 0x8D, CHR 0xEF, CHR 0xB8, CHR 0x8F] @ '' <b>Alasan</b>:'' @ [CHR 0x0A]
                 @ ''-'' @ [CHR 0x0A])),
             (''parse_mode'', JStr ''HTML''),
             (''disable_web_page_preview'', JBool True) ]) \<rparr>]"
    (is "_ = [?summary]")
proof -
  from assms(3) have "summary_text rt (submission_of rt req) = Some (join_with newline
         [ emoji_memo @ '' <b>Pengajuan Izin Baru</b>'',
           [],
           emoji_person @ '' <b>Nama</b>: -'',
           emoji_id @ '' <b>NIK</b>: -'',
           emoji_pin @ '' <b>TTL</b>: -, -'',
           emoji_house @ '' <b>Alamat</b>: -'',
           emoji_phone @ '' <b>Kontak</b>: -'',
           emoji_envelope @ '' <b>Email</b>: -'',
           emoji_calendar @ '' <b>Tanggal Pengajuan</b>: '' @ toLocaleString_id rt (JStr (now_iso rt)),
           emoji_label @ '' <b>Status</b>: Menunggu'',
           [],
           emoji_writing @ '' <b>Alasan</b>:'' @ newline @ ''-'',
           [] ])"
    (is "_ = Some ?composed")
    by (intro summary_text_defaults) (simp add: submission_fields_def)
  moreover have written: "sendMessage_request token chat ?composed = ?summary"
    by (simp add: sendMessage_request_def api_url_def newline_def emoji_memo_def emoji_person_def
        emoji_id_def emoji_pin_def emoji_house_def emoji_phone_def emoji_envelope_def
        emoji_calendar_def emoji_label_def emoji_writing_def)
  ultimately have composed: "summary_text rt (submission_of rt req) = Some ?composed" by simp
  from assms(3) have "body_field req ''foto_ktp_url'' = JUndefined"
    and "body_field req ''surat_keterangan_url'' = JUndefined"
    by (simp_all add: submission_fields_def)
  then have foto: "send_foto_ktp rt token chat (foto_ktp_url (submission_of rt req)) = ([], [])"
    and surat: "send_surat_keterangan rt token chat (surat_keterangan_url (submission_of rt req)) = ([], [])"
    by (simp_all add: send_foto_ktp_falsy send_surat_keterangan_falsy
        foto_ktp_url_submission surat_keterangan_url_submission truthy_default_to_JNull)
  from send_summary_composed [OF composed, of token chat]
  show ?thesis
  proof
    assume "send_summary rt token chat (submission_of rt req) = Inl [sendMessage_request token chat ?composed]"
    from handler_summary_raises [OF assms(1,2) this] show ?thesis
      by (simp only: written server_error_def outcome.simps)
  next
    assume "\<exists>w. send_summary rt token chat (submission_of rt req) = Inr (sendMessage_request token chat ?composed, w)"
    then obtain w where "send_summary rt token chat (submission_of rt req) = Inr (sendMessage_request token chat ?composed, w)" ..
    from handler_summary_completes [OF assms(1,2) this] show ?thesis
      by (simp only: written foto surat outcome.simps fst_conv append_Nil2)
  qed
qed

theorem omitted_fields_render_placeholders_witness:
  "req_method (post (JObj [])) = ''POST''
   \<and> configured sample_env ''123:abc'' ''-1001''
   \<and> list_all (\<lambda>k. body_field (post (JObj [])) k = JUndefined) submission_fields
   \<and> calls (handler sample_runtime sample_env (post (JObj []))) =
     [\<lparr> url = ''https://api.telegram.org/bot123:abc/sendMessage'',
         http_method = ''POST'',
         http_headers = [(''Content-Type'', ''application/json'')],
         http_body = JsonBody (JObj
           [ (''chat_id'', JStr ''-1001''),
             (''text'', JStr
                ([CHR 0xF0, CHR 0x9F, CHR 0x93, CHR 0x9D] @ '' <b>Pengajuan Izin Baru</b>'' @ [CHR 0x0A]
                 @ [CHR 0x0A]
                 @ [CHR 0xF0, CHR 0x9F, CHR 0x91, CHR 0xA4] @ '' <b>Nama</b>: -'' @ [CHR 0x0A]
                 @ [CHR 0xF0, CHR 0x9F, CHR 0x86, CHR 0x94] @ '' <b>NIK</b>: -'' @ [CHR 0x0A]
                 @ [CHR 0xF0, CHR 0x9F, CHR 0x93, CHR 0x8D] @ '' <b>TTL</b>: -, -'' @ [CHR 0x0A]
                 @ [CHR 0xF0, CHR 0x9F, CHR 0x8F, CHR 0xA0] @ '' <b>Alamat</b>: -'' @ [CHR 0x0A]
                 @ [CHR 0xF0, CHR 0x9F, CHR 0x93, CHR 0x9E] @ '' <b>Kontak</b>: -'' @ [CHR 0x0A]
                 @ [CHR 0xE2, CHR 0x9C, CHR 0x89, CHR 0xEF, CHR 0xB8, CHR 0x8F] @ '' <b>Email</b>: -'' @ [CHR 0x0A]
                 @ [CHR 0xF0, CHR 0x9F, CHR 0x97, CHR 0x93, CHR 0xEF, CHR 0xB8, CHR 0x8F]
                 @ '' <b>Tanggal Pengajuan</b>: 1/5/2024, 10.00.00'' @ [CHR 0x0A]
                 @ [CHR 0xF0, CHR 0x9F, CHR 0x8F, CHR 0xB7, CHR 0xEF, CHR 0xB8, CHR 0x8F]
                 @ '' <b>Status</b>: Menunggu'' @ [CHR 0x0A]
                 @ [CHR 0x0A]
                 @ [CHR 0xE2, CHR 0x9C, CHR 0x8D, CHR 0xEF, CHR 0xB8, CHR 0x8F] @ '' <b>Alasan</b>:'' @ [CHR 0x0A]
                 @ ''-'' @ [CHR 0x0A])),
             (''parse_mode'', JStr ''HTML''),
             (''disable_web_page_preview'', JBool True) ]) \<rparr>]"
  using omitted_fields_render_placeholders
    [where req = "post (JObj [])" and e = sample_env and token = "''123:abc''"
       and chat = "''-1001''" and rt = sample_runtime]
  by (simp add: post_def configured_def sample_env_def sample_runtime_def body_field_def
      payload_of_def submission_fields_def textual_fields_def)

text \<open>
  C10. With the summary delivered, an attachment field holding a string that is not empty
  and does not start with \<^verbatim>\<open>data:\<close> is taken for a remote URL, well-formed or not. Line 81
  would not match such a string, yet it is neither skipped nor decoded: the handler issues
  one JSON call carrying the string unchanged, \<^verbatim>\<open>sendPhoto\<close> with \<^verbatim>\<open>photo\<close> for the
  identification photo, \<^verbatim>\<open>sendDocument\<close> with \<^verbatim>\<open>document\<close> for the supporting document.
\<close>

theorem non_data_string_is_sent_by_reference:
  assumes "req_method req = ''POST''"
    and "configured e token chat"
    and "send_summary rt token chat (submission_of rt req) = Inr (msg, w)"
  shows "(body_field req ''foto_ktp_url'' = JStr u \<and> u \<noteq> [] \<and> take 5 u \<noteq> ''data:'' \<longrightarrow>
          match_data_url u = None
          \<and> calls (handler rt e req) =
              msg
              # \<lparr> url = ''https://api.telegram.org/bot'' @ token @ ''/sendPhoto'',
                  http_method = ''POST'',
                  http_headers = [(''Content-Type'', ''application/json'')],
                  http_body = JsonBody (JObj
                    [ (''chat_id'', JStr chat),
                      (''photo'', JStr u),
                      (''caption'', JStr ([CHR 0xF0, CHR 0x9F, CHR 0x93, CHR 0x84] @ '' Foto KTP'')) ]) \<rparr>
              # fst (send_surat_keterangan rt token chat (surat_keterangan_url (submission_of rt req))))
     \<and> (body_field req ''surat_keterangan_url'' = JStr u' \<and> u' \<noteq> [] \<and> take 5 u' \<noteq> ''data:'' \<longrightarrow>
          match_data_url u' = None
          \<and> calls (handler rt e req) =
              msg
              # fst (send_foto_ktp rt token chat (foto_ktp_url (submission_of rt req)))
              @ [\<lparr> url = ''https://api.telegram.org/bot'' @ token @ ''/sendDocument'',
                   http_method = ''POST'',
                   http_headers = [(''Content-Type'', ''application/json'')],
                   http_body = JsonBody (JObj
                     [ (''chat_id'', JStr chat),
                       (''document'', JStr u'),
                       (''caption'', JStr ([CHR 0xF0, CHR 0x9F, CHR 0x93, CHR 0x8E] @ '' Surat Keterangan'')) ]) \<rparr>])"
  using handler_summary_completes [OF assms]
    send_foto_ktp_remote [of u rt token chat] send_surat_keterangan_remote [of u' rt token chat]
  by (simp add: foto_ktp_url_submission surat_keterangan_url_submission default_to_JStr
      match_data_url_needs_prefix)

theorem non_data_string_is_sent_by_reference_witness:
  "req_method (post both_plain_strings) = ''POST''
   \<and> configured sample_env ''123:abc'' ''-1001''
   \<and> send_summary sample_runtime ''123:abc'' ''-1001'' (submission_of sample_runtime (post both_plain_strings))
       = Inr (sample_summary, [])
   \<and> body_field (post both_plain_strings) ''foto_ktp_url'' = JStr ''ktp scan, see mail''
   \<and> take 5 ''ktp scan, see mail'' \<noteq> ''data:''
   \<and> body_field (post both_plain_strings) ''surat_keterangan_url'' = JStr ''surat.pdf''
   \<and> take 5 ''surat.pdf'' \<noteq> ''data:''
   \<and> match_data_url ''ktp scan, see mail'' = None
   \<and> match_data_url ''surat.pdf'' = None
   \<and> calls (handler sample_runtime sample_env (post both_plain_strings)) =
       [ sample_summary,
         \<lparr> url = ''https://api.telegram.org/bot123:abc/sendPhoto'',
           http_method = ''POST'',
           http_headers = [(''Content-Type'', ''application/json'')],
           http_body = JsonBody (JObj
             [ (''chat_id'', JStr ''-1001''),
               (''photo'', JStr ''ktp scan, see mail''),
               (''caption'', JStr ([CHR 0xF0, CHR 0x9F, CHR 0x93, CHR 0x84] @ '' Foto KTP'')) ]) \<rparr>,
         \<lparr> url = ''https://api.telegram.org/bot123:abc/sendDocument'',
           http_method = ''POST'',
           http_headers = [(''Content-Type'', ''application/json'')],
           http_body = JsonBody (JObj
             [ (''chat_id'', JStr ''-1001''),
               (''document'', JStr ''surat.pdf''),
               (''caption'', JStr ([CHR 0xF0, CHR 0x9F, CHR 0x93, CHR 0x8E] @ '' Surat Keterangan'')) ]) \<rparr> ]"
  using non_data_string_is_sent_by_reference
    [where req = "post both_plain_strings" and e = sample_env and token = "''123:abc''"
       and chat = "''-1001''" and rt = sample_runtime and msg = sample_summary and w = "[]"
       and u = "''ktp scan, see mail''" and u' = "''surat.pdf''"]
  by (simp add: sample_defs stage_defs reference_request_def api_url_def caption_foto_ktp_def
      caption_surat_keterangan_def emoji_page_def emoji_paperclip_def)

end
